theory Spec2Isabelle
  imports
    Complex_Main
    "HOL-Library.AList"
    "HOL-Library.Char_ord"
    "HOL-Library.List_Lexorder"
    "HOL-Library.Product_Lexorder"
    "HOL-Library.Multiset"
begin

section \<open>Python values shared by both modules\<close>

text \<open>
  Metadata attributes and dictionary values are strings or integers. A Python \<open>dict\<close> is an
  association list in insertion order; \<open>d.get(k)\<close> is \<open>map_of d k\<close>. A string is the list
  of its characters, each a code point below 256, and strings compare as Python compares
  them, character by character.
\<close>

datatype mval = MStr string | MInt int

type_synonym pydict = "(string \<times> mval) list"

datatype py_error = ValueError | TypeError | EOFError | BackendError

text \<open>\<open>d.update(other)\<close>: each pair of \<open>other\<close>, in order, overwrites the value of a key that is
  present and is appended otherwise.\<close>

definition dict_update :: "pydict \<Rightarrow> pydict \<Rightarrow> pydict" where
  "dict_update d other = fold (\<lambda>(k, v). AList.update k v) other d"

subsection \<open>Strings\<close>

text \<open>White space as \<open>str.split()\<close> and \<open>str.strip()\<close> see it: the characters below 256 for
  which \<open>str.isspace\<close> holds, the next line character U+0085 and the no-break space U+00A0
  among them.\<close>

definition is_space :: "char \<Rightarrow> bool" where
  "is_space c \<longleftrightarrow> c \<in> set [CHR '' '', CHR 0x09, CHR 0x0A, CHR 0x0B, CHR 0x0C, CHR 0x0D,
                              CHR 0x1C, CHR 0x1D, CHR 0x1E, CHR 0x1F, CHR 0x85, CHR 0xA0]"

text \<open>\<open>len(content.split())\<close>: the number of maximal runs of non-space characters. The flag
  says whether the previous character belonged to a word.\<close>

fun count_words :: "bool \<Rightarrow> string \<Rightarrow> nat" where
  "count_words inw [] = 0"
| "count_words inw (c # cs) =
     (if is_space c then count_words False cs
      else (if inw then 0 else 1) + count_words True cs)"

definition digit_char :: "nat \<Rightarrow> char" where
  "digit_char d = char_of (48 + d)"

fun str_nat :: "nat \<Rightarrow> string" where
  "str_nat n = (if n < 10 then [digit_char n] else str_nat (n div 10) @ [digit_char (n mod 10)])"

text \<open>\<open>str(n)\<close> for a Python integer, as the f-string formats it.\<close>

definition str_int :: "int \<Rightarrow> string" where
  "str_int i = (if i < 0 then CHR ''-'' # str_nat (nat (- i)) else str_nat (nat i))"

section \<open>storage/chroma_manager.py\<close>

subsection \<open>The collections of the vector store\<close>

text \<open>
  A collection holds entries: an id, a document and a metadata dictionary. The client the
  module opens is \<open>chromadb.PersistentClient\<close>, and the two operations behave as that
  library does.

  \<open>collection_add\<close> is \<open>Collection.add\<close> for one entry. An id that is already in the
  collection is passed over without an exception and the collection stays as it is.

  \<open>collection_get\<close> is \<open>Collection.get(where=...)\<close>. A clause must have exactly one key;
  any other clause raises \<open>ValueError\<close>. With one key the answer is the entries whose
  metadata has that value under that key, in the order of their ids.
\<close>

record 'd entry =
  entry_id :: string
  document :: 'd
  metadata :: pydict

definition collection_add :: "'d entry list \<Rightarrow> 'd entry \<Rightarrow> 'd entry list" where
  "collection_add c e = (if entry_id e \<in> set (map entry_id c) then c else c @ [e])"

definition where_matches :: "pydict \<Rightarrow> pydict \<Rightarrow> bool" where
  "where_matches clause md = list_all (\<lambda>(k, v). map_of md k = Some v) clause"

definition collection_get :: "'d entry list \<Rightarrow> pydict \<Rightarrow> py_error + 'd entry list" where
  "collection_get c clause =
     (if length clause \<noteq> 1 then Inl ValueError
      else Inr (sort_key entry_id (filter (\<lambda>e. where_matches clause (metadata e)) c)))"

text \<open>The dictionary that \<open>_update_version_tracking\<close> serialises as the tracking document.\<close>

record version_data =
  vd_chapter_id :: string
  vd_version :: int
  vd_doc_id :: string
  vd_content_hash :: string
  vd_created_at :: string

record chroma =
  content_collection :: "string entry list"
  versions_collection :: "version_data entry list"

definition empty_chroma :: chroma where
  "empty_chroma = \<lparr>content_collection = [], versions_collection = []\<rparr>"

subsection \<open>store_content\<close>

text \<open>
  The digest function (\<open>hashlib.sha256(...).hexdigest()\<close>), the eight hexadecimal characters cut
  from \<open>uuid.uuid4()\<close> and the two readings of \<open>datetime.now().isoformat()\<close> come from outside
  the program and are arguments of the model.
\<close>

definition generate_content_hash :: "(string \<Rightarrow> string) \<Rightarrow> string \<Rightarrow> string" where
  "generate_content_hash sha256 content = sha256 content"

text \<open>The \<open>add\<close> of the tracking entry sits in a \<open>try\<close> block; \<open>collection_add\<close> raises
  nothing, so the handler has nothing to do.\<close>

definition update_version_tracking ::
    "string \<Rightarrow> version_data entry list \<Rightarrow> string \<Rightarrow> int \<Rightarrow> string \<Rightarrow> string \<Rightarrow> version_data entry list"
where
  "update_version_tracking now vc chapter_id version doc_id content_hash =
     (let version_id = ''version_'' @ chapter_id @ ''_'' @ str_int version;
          vdata = \<lparr>vd_chapter_id = chapter_id, vd_version = version, vd_doc_id = doc_id,
                   vd_content_hash = content_hash, vd_created_at = now\<rparr>
      in collection_add vc
           \<lparr>entry_id = version_id, document = vdata,
            metadata = [(''type'', MStr ''version_info''), (''chapter_id'', MStr chapter_id)]\<rparr>)"

text \<open>Lines 51 to 61: the six attributes the store writes, then the caller's dictionary on top.\<close>

definition store_metadata ::
    "(string \<Rightarrow> string) \<Rightarrow> string \<Rightarrow> string \<Rightarrow> string \<Rightarrow> int \<Rightarrow> pydict option \<Rightarrow> pydict"
where
  "store_metadata sha256 now content chapter_id version md =
     (let base = [(''chapter_id'', MStr chapter_id),
                  (''version'', MInt version),
                  (''content_hash'', MStr (generate_content_hash sha256 content)),
                  (''timestamp'', MStr now),
                  (''word_count'', MInt (int (count_words False content))),
                  (''char_count'', MInt (int (length content)))]
      in case md of None \<Rightarrow> base
         | Some d \<Rightarrow> if d \<noteq> [] then dict_update base d else base)"

definition make_doc_id :: "string \<Rightarrow> int \<Rightarrow> string \<Rightarrow> string" where
  "make_doc_id chapter_id version uuid8 = chapter_id @ ''_v'' @ str_int version @ ''_'' @ uuid8"

text \<open>The call returns the document id and leaves the store in its new state.\<close>

definition store_content ::
    "(string \<Rightarrow> string) \<Rightarrow> string \<Rightarrow> string \<Rightarrow> string \<Rightarrow> chroma
      \<Rightarrow> string \<Rightarrow> string \<Rightarrow> int \<Rightarrow> pydict option \<Rightarrow> string \<times> chroma"
where
  "store_content sha256 uuid8 now1 now2 s content chapter_id version md =
     (let doc_id = make_doc_id chapter_id version uuid8;
          content_hash = generate_content_hash sha256 content
      in (doc_id,
          \<lparr>content_collection =
             collection_add (content_collection s)
               \<lparr>entry_id = doc_id, document = content,
                metadata = store_metadata sha256 now1 content chapter_id version md\<rparr>,
           versions_collection =
             update_version_tracking now2 (versions_collection s)
               chapter_id version doc_id content_hash\<rparr>))"

subsection \<open>retrieve_content\<close>

text \<open>
  The key of the sort on line 130, \<open>x[1].get('version', 0)\<close>, and Python's
  \<open>sorted(..., reverse=True)\<close>: stable, descending, and a \<open>TypeError\<close> when it has to compare
  an integer with a string.
\<close>

definition version_key :: "'d entry \<Rightarrow> mval" where
  "version_key e = (case map_of (metadata e) ''version'' of None \<Rightarrow> MInt 0 | Some v \<Rightarrow> v)"

fun is_int :: "mval \<Rightarrow> bool" where
  "is_int (MInt _) = True"
| "is_int (MStr _) = False"

fun int_of :: "mval \<Rightarrow> int" where
  "int_of (MInt i) = i"
| "int_of (MStr _) = 0"

fun str_of :: "mval \<Rightarrow> string" where
  "str_of (MStr s) = s"
| "str_of (MInt _) = []"

definition sorted_reverse :: "('a \<Rightarrow> 'k::linorder) \<Rightarrow> 'a list \<Rightarrow> 'a list" where
  "sorted_reverse f xs = rev (sort_key f (rev xs))"

definition sorted_by_version_desc :: "'d entry list \<Rightarrow> py_error + 'd entry list" where
  "sorted_by_version_desc es =
     (if list_all (\<lambda>e. is_int (version_key e)) es
        then Inr (sorted_reverse (\<lambda>e. int_of (version_key e)) es)
      else if list_all (\<lambda>e. \<not> is_int (version_key e)) es
        then Inr (sorted_reverse (\<lambda>e. str_of (version_key e)) es)
      else Inl TypeError)"

text \<open>The answer is the dictionary with \<open>found\<close> true, or the one with \<open>found\<close> false and
  either the text \<open>Content not found\<close> or the text of the exception caught.\<close>

datatype fail_reason = ContentNotFound | Raised py_error

datatype retrieve_result = Found string pydict | NotFound fail_reason

definition first_result :: "string entry list \<Rightarrow> retrieve_result" where
  "first_result results =
     (case results of [] \<Rightarrow> NotFound ContentNotFound
      | e # _ \<Rightarrow> Found (document e) (metadata e))"

definition latest_version :: "chroma \<Rightarrow> string \<Rightarrow> retrieve_result" where
  "latest_version s chapter_id =
     (case collection_get (content_collection s) [(''chapter_id'', MStr chapter_id)] of
        Inl e \<Rightarrow> NotFound (Raised e)
      | Inr results \<Rightarrow>
          if results \<noteq> []
          then (case sorted_by_version_desc results of
                  Inl e \<Rightarrow> NotFound (Raised e)
                | Inr sorted_results \<Rightarrow> first_result (take 1 sorted_results))
          else first_result results)"

text \<open>\<open>if version:\<close> tests the argument for truth, so \<open>None\<close> and \<open>0\<close> take the same branch.\<close>

definition retrieve_content :: "chroma \<Rightarrow> string \<Rightarrow> int option \<Rightarrow> retrieve_result" where
  "retrieve_content s chapter_id version =
     (case version of
        None \<Rightarrow> latest_version s chapter_id
      | Some v \<Rightarrow>
          if v \<noteq> 0
          then (case collection_get (content_collection s)
                       [(''chapter_id'', MStr chapter_id), (''version'', MInt v)] of
                  Inl e \<Rightarrow> NotFound (Raised e)
                | Inr results \<Rightarrow> first_result results)
          else latest_version s chapter_id)"

subsection \<open>Sequences of calls and what they leave in the store\<close>

text \<open>A caller's script: the arguments of successive \<open>store_content\<close> calls, with what the
  environment supplied to each.\<close>

record store_call =
  sc_uuid8 :: string
  sc_now1 :: string
  sc_now2 :: string
  sc_content :: string
  sc_chapter_id :: string
  sc_version :: int
  sc_metadata :: "pydict option"

fun store_all :: "(string \<Rightarrow> string) \<Rightarrow> chroma \<Rightarrow> store_call list \<Rightarrow> chroma" where
  "store_all sha256 s [] = s"
| "store_all sha256 s (c # cs) =
     store_all sha256
       (snd (store_content sha256 (sc_uuid8 c) (sc_now1 c) (sc_now2 c) s
               (sc_content c) (sc_chapter_id c) (sc_version c) (sc_metadata c)))
       cs"

text \<open>
  What the store holds for a chapter, read off the stored metadata and not through the
  program's own queries: the snapshots whose \<open>chapter_id\<close> attribute is the chapter, in the
  order they were stored, and their \<open>version\<close> attributes.
\<close>

definition chapter_snapshots :: "chroma \<Rightarrow> string \<Rightarrow> string entry list" where
  "chapter_snapshots s chapter_id =
     filter (\<lambda>e. map_of (metadata e) ''chapter_id'' = Some (MStr chapter_id)) (content_collection s)"

definition stored_versions :: "chroma \<Rightarrow> string \<Rightarrow> mval option list" where
  "stored_versions s chapter_id =
     map (\<lambda>e. map_of (metadata e) ''version'') (chapter_snapshots s chapter_id)"

text \<open>Whether the caller's metadata dictionary has the key, and so overrides the store's value.\<close>

definition caller_sets :: "pydict option \<Rightarrow> string \<Rightarrow> bool" where
  "caller_sets md k = (case md of None \<Rightarrow> False | Some d \<Rightarrow> k \<in> set (map fst d))"

definition snapshot_key :: "pydict \<Rightarrow> mval option \<times> mval option" where
  "snapshot_key md = (map_of md ''chapter_id'', map_of md ''version'')"

definition unique_versions :: "chroma \<Rightarrow> bool" where
  "unique_versions s = distinct (map (\<lambda>e. snapshot_key (metadata e)) (content_collection s))"

subsection \<open>search_similar_content\<close>

text \<open>
  The answer of \<open>Collection.query\<close> for the one query text: the documents, metadata and
  distances, or an exception. Distances are floating-point numbers in the program and real
  numbers here. \<open>zip\<close> stops at the shortest list.
\<close>

type_synonym query_result = "string list \<times> pydict list \<times> real list"

record search_hit =
  hit_content :: string
  hit_metadata :: pydict
  similarity_score :: real
  hit_rank :: nat

definition search_similar_content ::
    "(string \<Rightarrow> int \<Rightarrow> py_error + query_result) \<Rightarrow> string \<Rightarrow> int \<Rightarrow> search_hit list"
where
  "search_similar_content query_backend query n_results =
     (case query_backend query n_results of
        Inl e \<Rightarrow> []
      | Inr (docs, mds, dists) \<Rightarrow>
          map (\<lambda>(i, doc, md, distance).
                 \<lparr>hit_content = doc, hit_metadata = md,
                  similarity_score = 1 - distance, hit_rank = i + 1\<rparr>)
              (enumerate 0 (zip docs (zip mds dists))))"

section \<open>interface/human_loop.py\<close>

subsection \<open>Console input\<close>

definition strip :: "string \<Rightarrow> string" where
  "strip s = rev (dropWhile is_space (rev (dropWhile is_space s)))"

text \<open>\<open>str.lower()\<close> on characters below 256: the letters A to Z and the capital letters from
  U+00C0 to U+00DE, the multiplication sign U+00D7 excepted, move up by 32.\<close>

definition lower_char :: "char \<Rightarrow> char" where
  "lower_char c =
     (if (CHR ''A'' \<le> c \<and> c \<le> CHR ''Z'') \<or> (CHR 0xC0 \<le> c \<and> c \<le> CHR 0xDE \<and> c \<noteq> CHR 0xD7)
      then char_of (of_char c + (32::nat)) else c)"

definition lower :: "string \<Rightarrow> string" where
  "lower s = map lower_char s"

definition is_digit :: "char \<Rightarrow> bool" where
  "is_digit c \<longleftrightarrow> CHR ''0'' \<le> c \<and> c \<le> CHR ''9''"

definition digit_val :: "char \<Rightarrow> nat" where
  "digit_val c = of_char c - 48"

text \<open>\<open>int(text)\<close>: white space around, an optional sign, then the digits 0 to 9, with single
  underscores allowed between digits. \<open>None\<close> is the \<open>ValueError\<close>.\<close>

fun parse_digits :: "nat \<Rightarrow> string \<Rightarrow> nat option" where
  "parse_digits acc [] = Some acc"
| "parse_digits acc (c # cs) =
     (if is_digit c then parse_digits (10 * acc + digit_val c) cs
      else if c = CHR ''_'' \<and> cs \<noteq> [] \<and> is_digit (hd cs) then parse_digits acc cs
      else None)"

definition py_int :: "string \<Rightarrow> int option" where
  "py_int s =
     (let t = strip s;
          neg = (t \<noteq> [] \<and> hd t = CHR ''-'');
          body = (if t \<noteq> [] \<and> (hd t = CHR ''-'' \<or> hd t = CHR ''+'') then tl t else t)
      in if body \<noteq> [] \<and> is_digit (hd body)
         then map_option (\<lambda>n. if neg then - int n else int n) (parse_digits 0 body)
         else None)"

subsection \<open>Requests, feedback and the interface state\<close>

record ReviewRequest =
  request_id :: string
  rr_content :: string
  original_content :: string
  ai_feedback :: pydict
  review_type :: string
  priority :: int
  created_at :: string
  status :: string

record HumanFeedback =
  fb_request_id :: string
  reviewer_id :: string
  action :: string
  feedback :: string
  suggested_changes :: string
  rating :: int
  timestamp :: string

text \<open>
  The two lists the interface keeps in memory. The JSON files written by \<open>_save_data\<close> mirror
  them, console output has no effect on them, and no feedback callback is registered.
\<close>

record HumanLoopInterface =
  pending_reviews :: "ReviewRequest list"
  completed_reviews :: "HumanFeedback list"

definition empty_interface :: HumanLoopInterface where
  "empty_interface = \<lparr>pending_reviews = [], completed_reviews = []\<rparr>"

text \<open>\<open>stamp\<close> is \<open>datetime.now().strftime('%Y%m%d_%H%M%S')\<close> and \<open>now\<close> is
  \<open>datetime.now().isoformat()\<close>.\<close>

definition submit_for_review ::
    "string \<Rightarrow> string \<Rightarrow> HumanLoopInterface \<Rightarrow> string \<Rightarrow> string \<Rightarrow> pydict \<Rightarrow> string \<Rightarrow> int
      \<Rightarrow> string \<times> HumanLoopInterface"
where
  "submit_for_review stamp now s content original ai_fb rtype prio =
     (let rid = rtype @ ''_'' @ stamp @ ''_'' @ str_nat (length (pending_reviews s));
          review_request =
            \<lparr>request_id = rid, rr_content = content, original_content = original,
             ai_feedback = ai_fb, review_type = rtype, priority = prio,
             created_at = now, status = ''pending''\<rparr>
      in (rid, s\<lparr>pending_reviews := pending_reviews s @ [review_request]\<rparr>))"

subsection \<open>get_pending_reviews\<close>

text \<open>The three \<open>continue\<close> tests of the loop; an absent or empty \<open>review_type\<close> filters
  nothing.\<close>

definition passes_filters :: "string option \<Rightarrow> int \<Rightarrow> ReviewRequest \<Rightarrow> bool" where
  "passes_filters rtype priority_min review \<longleftrightarrow>
     \<not> (status review \<noteq> ''pending'') \<and>
     \<not> (case rtype of None \<Rightarrow> False | Some t \<Rightarrow> t \<noteq> [] \<and> review_type review \<noteq> t) \<and>
     \<not> (priority review < priority_min)"

definition review_sort_key :: "ReviewRequest \<Rightarrow> int \<times> string" where
  "review_sort_key x = (- priority x, created_at x)"

definition get_pending_reviews ::
    "HumanLoopInterface \<Rightarrow> string option \<Rightarrow> int \<Rightarrow> ReviewRequest list"
where
  "get_pending_reviews s rtype priority_min =
     sort_key review_sort_key (filter (passes_filters rtype priority_min) (pending_reviews s))"

subsection \<open>collect_human_feedback\<close>

definition find_request_by_id :: "HumanLoopInterface \<Rightarrow> string \<Rightarrow> ReviewRequest option" where
  "find_request_by_id s rid = find (\<lambda>request. request_id request = rid) (pending_reviews s)"

definition display_review_interface :: "HumanLoopInterface \<Rightarrow> string \<Rightarrow> bool" where
  "display_review_interface s rid = (find_request_by_id s rid \<noteq> None)"

text \<open>The prompts read lines from the console; a console that has no more lines raises
  \<open>EOFError\<close>. Each function returns what it read and the lines that are left.\<close>

fun read_action :: "string list \<Rightarrow> py_error + (string \<times> string list)" where
  "read_action [] = Inl EOFError"
| "read_action (l # ls) =
     (let a = lower (strip l)
      in if a \<in> set [''approve'', ''revise'', ''reject''] then Inr (a, ls) else read_action ls)"

fun read_line :: "string list \<Rightarrow> py_error + (string \<times> string list)" where
  "read_line [] = Inl EOFError"
| "read_line (l # ls) = Inr (strip l, ls)"

fun read_rating :: "string list \<Rightarrow> py_error + (int \<times> string list)" where
  "read_rating [] = Inl EOFError"
| "read_rating (l # ls) =
     (case py_int (strip l) of
        None \<Rightarrow> read_rating ls
      | Some r \<Rightarrow> if 1 \<le> r \<and> r \<le> 10 then Inr (r, ls) else read_rating ls)"

text \<open>\<open>request.status = 'completed'\<close> writes to the object the search returned: the first
  request of the list with that id.\<close>

fun complete_first :: "string \<Rightarrow> ReviewRequest list \<Rightarrow> ReviewRequest list" where
  "complete_first rid [] = []"
| "complete_first rid (r # rs) =
     (if request_id r = rid then r\<lparr>status := ''completed''\<rparr> # rs else r # complete_first rid rs)"

definition collect_human_feedback ::
    "string \<Rightarrow> string list \<Rightarrow> HumanLoopInterface \<Rightarrow> string \<Rightarrow> string
      \<Rightarrow> py_error + (HumanFeedback option \<times> HumanLoopInterface \<times> string list)"
where
  "collect_human_feedback now console s rid reviewer =
     (case find_request_by_id s rid of
        None \<Rightarrow> Inr (None, s, console)
      | Some request \<Rightarrow>
          if \<not> display_review_interface s rid then Inr (None, s, console)
          else
            (case read_action console of Inl e \<Rightarrow> Inl e | Inr (act, c1) \<Rightarrow>
            (case read_line c1 of Inl e \<Rightarrow> Inl e | Inr (fb, c2) \<Rightarrow>
            (case read_line c2 of Inl e \<Rightarrow> Inl e | Inr (sc, c3) \<Rightarrow>
            (case read_rating c3 of Inl e \<Rightarrow> Inl e | Inr (rt, c4) \<Rightarrow>
               (let human_feedback =
                      \<lparr>fb_request_id = rid, reviewer_id = reviewer, action = act,
                       feedback = fb, suggested_changes = sc, rating = rt, timestamp = now\<rparr>
                in Inr (Some human_feedback,
                        \<lparr>pending_reviews = complete_first rid (pending_reviews s),
                         completed_reviews = completed_reviews s @ [human_feedback]\<rparr>,
                        c4)))))))"

text \<open>\<open>get_review_summary\<close> reports the fields of the first feedback stored for the request.\<close>

definition get_review_summary :: "HumanLoopInterface \<Rightarrow> string \<Rightarrow> HumanFeedback option" where
  "get_review_summary s rid = find (\<lambda>fb. fb_request_id fb = rid) (completed_reviews s)"

subsection \<open>wait_for_feedback\<close>

text \<open>
  Each turn of the loop looks at the list of completed reviews and then at the clock. A turn
  is modelled by what it observes: the list as it then is, and the whole seconds elapsed
  since the start. \<open>timedelta.seconds\<close> is the seconds component, below one day. The result
  is \<open>None\<close> while the loop is still polling when the observations end,
  \<open>Some None\<close> for the timeout and \<open>Some (Some fb)\<close> for feedback.
\<close>

definition td_seconds :: "int \<Rightarrow> int" where
  "td_seconds elapsed = elapsed mod 86400"

fun wait_for_feedback ::
    "string \<Rightarrow> int \<Rightarrow> (HumanFeedback list \<times> int) list \<Rightarrow> HumanFeedback option option"
where
  "wait_for_feedback rid timeout [] = None"
| "wait_for_feedback rid timeout ((completed, elapsed) # later) =
     (case find (\<lambda>fb. fb_request_id fb = rid) completed of
        Some fb \<Rightarrow> Some (Some fb)
      | None \<Rightarrow>
          if td_seconds elapsed > timeout then Some None
          else wait_for_feedback rid timeout later)"

text \<open>A run of turns that neither find feedback for the request nor see the timeout exceeded.\<close>

definition quiet :: "string \<Rightarrow> int \<Rightarrow> (HumanFeedback list \<times> int) list \<Rightarrow> bool" where
  "quiet rid timeout turns =
     list_all (\<lambda>(completed, elapsed).
        find (\<lambda>fb. fb_request_id fb = rid) completed = None \<and> \<not> td_seconds elapsed > timeout) turns"

section \<open>Example runs\<close>

text \<open>
  Concrete environments for the examples below. The digest is a stand-in: the program only
  stores what the digest function returns, so any function serves.
\<close>

definition example_digest :: "string \<Rightarrow> string" where
  "example_digest content = ''sha256:'' @ content"

definition draft_call :: "string \<Rightarrow> string \<Rightarrow> int \<Rightarrow> store_call" where
  "draft_call uuid8 content version =
     \<lparr>sc_uuid8 = uuid8, sc_now1 = ''2024-05-01T10:00:00.000100'',
      sc_now2 = ''2024-05-01T10:00:00.000200'', sc_content = content,
      sc_chapter_id = ''chapter_1'', sc_version = version, sc_metadata = None\<rparr>"

definition run_stores :: "store_call list \<Rightarrow> chroma" where
  "run_stores calls = store_all example_digest empty_chroma calls"

definition fixed_backend ::
    "py_error + query_result \<Rightarrow> string \<Rightarrow> int \<Rightarrow> py_error + query_result" where
  "fixed_backend answer query n_results = answer"

text \<open>Submissions of reviewer requests, each with its two clock readings and its priority.\<close>

fun submit_all :: "HumanLoopInterface \<Rightarrow> (string \<times> string \<times> int) list \<Rightarrow> HumanLoopInterface" where
  "submit_all s [] = s"
| "submit_all s ((stamp, now, prio) # rest) =
     submit_all (snd (submit_for_review stamp now s ''draft'' ''source'' [] ''reviewer'' prio)) rest"

definition reviewed_once :: HumanLoopInterface where
  "reviewed_once =
     (case collect_human_feedback ''2024-05-01T11:00:00'' [''approve'', ''reads well'', '''', ''9'']
             (submit_all empty_interface [(''20240501_100000'', ''2024-05-01T10:00:00'', 3)])
             ''reviewer_20240501_100000_0'' ''alice''
      of Inr (r, s, c) \<Rightarrow> s | Inl e \<Rightarrow> empty_interface)"

section \<open>Facts about the store\<close>

lemma map_of_fold_update:
  "k \<notin> set (map fst other) \<Longrightarrow>
   map_of (fold (\<lambda>(k, v). AList.update k v) other d) k = map_of d k"
  by (induction other arbitrary: d) (auto simp: update_conv')

lemma map_of_dict_update:
  "k \<notin> set (map fst other) \<Longrightarrow> map_of (dict_update d other) k = map_of d k"
  unfolding dict_update_def by (rule map_of_fold_update)

lemma store_metadata_version:
  "\<not> caller_sets md ''version'' \<Longrightarrow>
   map_of (store_metadata H t c ch v md) ''version'' = Some (MInt v)"
  by (auto simp: store_metadata_def caller_sets_def map_of_dict_update Let_def
      split: option.splits)

lemma store_metadata_chapter:
  "\<not> caller_sets md ''chapter_id'' \<Longrightarrow>
   map_of (store_metadata H t c ch v md) ''chapter_id'' = Some (MStr ch)"
  by (auto simp: store_metadata_def caller_sets_def map_of_dict_update Let_def
      split: option.splits)


lemma store_content_fresh:
  assumes "make_doc_id ch v u \<notin> set (map entry_id (content_collection s))"
  shows "store_content H u t1 t2 s c ch v md =
           (make_doc_id ch v u,
            \<lparr>content_collection = content_collection s @
               [\<lparr>entry_id = make_doc_id ch v u, document = c,
                 metadata = store_metadata H t1 c ch v md\<rparr>],
             versions_collection =
               update_version_tracking t2 (versions_collection s) ch v
                 (make_doc_id ch v u) (generate_content_hash H c)\<rparr>)"
  using assms by (simp add: store_content_def collection_add_def Let_def)

text \<open>A document id that is already stored: the call returns it all the same, and the
  snapshots are what they were.\<close>

lemma store_content_clash:
  assumes "make_doc_id ch v u \<in> set (map entry_id (content_collection s))"
  shows "store_content H u t1 t2 s c ch v md =
           (make_doc_id ch v u,
            \<lparr>content_collection = content_collection s,
             versions_collection =
               update_version_tracking t2 (versions_collection s) ch v
                 (make_doc_id ch v u) (generate_content_hash H c)\<rparr>)"
  using assms by (simp add: store_content_def collection_add_def Let_def)

lemma collection_get_single:
  "collection_get c [(k, v)] =
     Inr (sort_key entry_id (filter (\<lambda>e. map_of (metadata e) k = Some v) c))"
  by (simp add: collection_get_def where_matches_def)

lemma collection_get_chapter:
  "collection_get (content_collection s) [(''chapter_id'', MStr ch)] =
     Inr (sort_key entry_id (chapter_snapshots s ch))"
  by (simp add: collection_get_single chapter_snapshots_def)

lemma collection_get_two_keys:
  "collection_get c [p, q] = Inl ValueError"
  by (simp add: collection_get_def)

subsection \<open>The latest version\<close>

lemma sorted_last_max:
  assumes "sorted (map f ys)" "ys \<noteq> []" "x \<in> set ys"
  shows "f x \<le> f (last ys)"
  using assms by (induction ys) (auto split: if_splits)

lemma sorted_reverse_hd:
  assumes "xs \<noteq> []"
  shows "\<exists>y ys. sorted_reverse f xs = y # ys \<and> y \<in> set xs \<and> (\<forall>x \<in> set xs. f x \<le> f y)"
proof -
  let ?zs = "sort_key f (rev xs)"
  have ne: "?zs \<noteq> []"
    using assms by (metis set_sort set_rev set_empty)
  have mx: "\<forall>x \<in> set xs. f x \<le> f (last ?zs)"
    using sorted_last_max[of f ?zs] ne by simp
  have "?zs = butlast ?zs @ [last ?zs]"
    using ne by simp
  then have "rev ?zs = last ?zs # rev (butlast ?zs)"
    by (metis rev.simps(2) rev_append rev_rev_ident append_Nil rev_singleton_conv append_Cons)
  then have "sorted_reverse f xs = last ?zs # rev (butlast ?zs)"
    by (simp add: sorted_reverse_def)
  moreover have "last ?zs \<in> set xs"
    using ne last_in_set[of ?zs] by simp
  ultimately show ?thesis using mx by blast
qed

lemma version_key_int:
  "map_of (metadata e) ''version'' = Some (MInt n) \<Longrightarrow> version_key e = MInt n"
  by (simp add: version_key_def)

lemma latest_version_max:
  assumes ne: "chapter_snapshots s ch \<noteq> []"
    and ints: "\<forall>e \<in> set (chapter_snapshots s ch).
                 \<exists>n. map_of (metadata e) ''version'' = Some (MInt n)"
  shows "\<exists>e \<in> set (chapter_snapshots s ch). \<exists>n.
           map_of (metadata e) ''version'' = Some (MInt n) \<and>
           latest_version s ch = Found (document e) (metadata e) \<and>
           (\<forall>e' \<in> set (chapter_snapshots s ch). \<forall>m.
              map_of (metadata e') ''version'' = Some (MInt m) \<longrightarrow> m \<le> n)"
proof -
  let ?rs = "sort_key entry_id (chapter_snapshots s ch)"
  let ?f = "\<lambda>e::string entry. int_of (version_key e)"
  have rs_ne: "?rs \<noteq> []"
    using ne by (metis set_sort set_empty)
  obtain y ys where srt: "sorted_reverse ?f ?rs = y # ys" and y: "y \<in> set ?rs"
    and mx: "\<forall>x \<in> set ?rs. ?f x \<le> ?f y"
    using sorted_reverse_hd[OF rs_ne, of ?f] by blast
  have all_int: "list_all (\<lambda>e. is_int (version_key e)) ?rs"
    using ints by (auto simp: list_all_iff dest!: bspec version_key_int)
  have "sorted_by_version_desc ?rs = Inr (y # ys)"
    using all_int srt by (simp add: sorted_by_version_desc_def)
  then have found: "latest_version s ch = Found (document y) (metadata y)"
    using rs_ne by (simp add: latest_version_def collection_get_chapter first_result_def)
  have y_in: "y \<in> set (chapter_snapshots s ch)"
    using y by simp
  then obtain n where n: "map_of (metadata y) ''version'' = Some (MInt n)"
    using ints by blast
  have "m \<le> n" if "e' \<in> set (chapter_snapshots s ch)"
    and "map_of (metadata e') ''version'' = Some (MInt m)" for e' m
  proof -
    have "?f e' \<le> ?f y" using mx that(1) by simp
    then show ?thesis using that(2) n by (simp add: version_key_int)
  qed
  with y_in n found show ?thesis by blast
qed

text \<open>Where the answer has \<open>found\<close> false: a chapter without snapshots, whatever the version
  argument, and every version other than 0, stored or not, because the clause with two keys
  is refused.\<close>

lemma retrieve_content_nonzero_version:
  assumes "v \<noteq> 0"
  shows "retrieve_content s ch (Some v) = NotFound (Raised ValueError)"
  using assms by (simp add: retrieve_content_def collection_get_two_keys)

lemma retrieve_content_absent_chapter:
  assumes "chapter_snapshots s ch = []"
  shows "retrieve_content s ch None = NotFound ContentNotFound"
    and "retrieve_content s ch (Some 0) = NotFound ContentNotFound"
  using assms
  by (simp_all add: retrieve_content_def latest_version_def collection_get_chapter first_result_def)

section \<open>Version numbers\<close>

text \<open>
  C1, as the program has it. \<open>store_content\<close> does not derive the version number: the new
  snapshot carries the number the caller passed (1 when the argument is left out), after the
  snapshots already stored for the chapter and whatever their versions are. This holds when
  the document id is new and the caller's metadata redefines neither \<open>version\<close> nor
  \<open>chapter_id\<close>.
\<close>

theorem store_content_keeps_caller_version:
  assumes "make_doc_id ch v u \<notin> set (map entry_id (content_collection s))"
    and "\<not> caller_sets md ''version''" and "\<not> caller_sets md ''chapter_id''"
  shows "\<exists>s'. store_content H u t1 t2 s c ch v md = (make_doc_id ch v u, s')
           \<and> stored_versions s' ch = stored_versions s ch @ [Some (MInt v)]"
  using assms
  by (simp add: store_content_fresh stored_versions_def chapter_snapshots_def
      store_metadata_chapter store_metadata_version)

text \<open>
  C2, as the program has it. \<open>store_content\<close> keeps the document ids distinct: a document id
  that is already stored adds nothing. The pairs of chapter and version are distinct
  afterwards exactly when they were distinct before and the call either added nothing or
  wrote a pair that was not yet in the store; the call does not look at the pairs.
\<close>

theorem store_content_uniqueness:
  assumes "store_content H u t1 t2 s c ch v md = (d, s')"
  shows "(distinct (map entry_id (content_collection s)) \<longrightarrow>
            distinct (map entry_id (content_collection s')))
     \<and> (unique_versions s' \<longleftrightarrow>
          unique_versions s \<and>
          (make_doc_id ch v u \<in> set (map entry_id (content_collection s)) \<or>
           snapshot_key (store_metadata H t1 c ch v md)
             \<notin> set (map (\<lambda>e. snapshot_key (metadata e)) (content_collection s))))"
proof (cases "make_doc_id ch v u \<in> set (map entry_id (content_collection s))")
  case True
  then have "content_collection s' = content_collection s"
    using assms by (auto simp: store_content_clash)
  then show ?thesis using True by (simp add: unique_versions_def)
next
  case False
  then have "content_collection s' = content_collection s @
               [\<lparr>entry_id = make_doc_id ch v u, document = c,
                 metadata = store_metadata H t1 c ch v md\<rparr>]"
    using assms by (auto simp: store_content_fresh)
  then show ?thesis using False by (auto simp: unique_versions_def)
qed

section \<open>Retrieval\<close>

text \<open>
  C3, as the program has it. For a chapter with at least one stored snapshot, all of whose
  stored \<open>version\<close> attributes are integers, \<open>retrieve_content\<close> without a version returns the
  document and metadata of a stored snapshot of that chapter whose \<open>version\<close> attribute is the
  largest among the chapter's snapshots.
\<close>

theorem retrieve_latest_is_max:
  assumes "chapter_snapshots s ch \<noteq> []"
    and "\<forall>e \<in> set (chapter_snapshots s ch). \<exists>n. map_of (metadata e) ''version'' = Some (MInt n)"
  shows "\<exists>e \<in> set (chapter_snapshots s ch). \<exists>n.
           map_of (metadata e) ''version'' = Some (MInt n) \<and>
           retrieve_content s ch None = Found (document e) (metadata e) \<and>
           (\<forall>e' \<in> set (chapter_snapshots s ch). \<forall>m.
              map_of (metadata e') ''version'' = Some (MInt m) \<longrightarrow> m \<le> n)"
  using latest_version_max[OF assms] by (simp add: retrieve_content_def)

text \<open>
  C10, as the program has it. \<open>retrieve_content\<close> with version 0 is \<open>retrieve_content\<close> with no
  version, in every store. For a chapter with stored snapshots whose \<open>version\<close> attributes
  are all integers, the answer is a snapshot with the largest \<open>version\<close> attribute, also when a
  snapshot with version 0 is stored.
\<close>

theorem retrieve_version_zero_is_latest:
  "retrieve_content s ch (Some 0) = retrieve_content s ch None \<and>
   (chapter_snapshots s ch \<noteq> [] \<and>
    (\<forall>e \<in> set (chapter_snapshots s ch). \<exists>n. map_of (metadata e) ''version'' = Some (MInt n))
    \<longrightarrow>
    (\<exists>e \<in> set (chapter_snapshots s ch). \<exists>n.
       map_of (metadata e) ''version'' = Some (MInt n) \<and>
       retrieve_content s ch (Some 0) = Found (document e) (metadata e) \<and>
       (\<forall>e' \<in> set (chapter_snapshots s ch). \<forall>m.
          map_of (metadata e') ''version'' = Some (MInt m) \<longrightarrow> m \<le> n)))"
  using latest_version_max[of s ch] by (simp add: retrieve_content_def)

section \<open>Identical content\<close>


section \<open>Similarity search\<close>

lemma search_hits_eq:
  assumes "query_backend query n = Inr (docs, mds, dists)"
  shows "search_similar_content query_backend query n =
           map (\<lambda>(i, doc, md, distance).
                 \<lparr>hit_content = doc, hit_metadata = md,
                  similarity_score = 1 - distance, hit_rank = i + 1\<rparr>)
              (enumerate 0 (zip docs (zip mds dists)))"
  using assms by (simp add: search_similar_content_def)

text \<open>
  C8, as the program has it. When the backend answers, there is one hit for each position the
  three lists share, and the hit at position \<open>i\<close> has the score \<open>1 - distance\<close>, not clamped, and
  the rank \<open>i + 1\<close>; its score lies in \<open>[0, 1]\<close> exactly when its distance does. The hits keep
  the backend's order, so their scores descend when the distances returned ascend.
\<close>

theorem similarity_is_one_minus_distance:
  assumes "query_backend query n = Inr (docs, mds, dists)"
  shows "length (search_similar_content query_backend query n)
           = min (length docs) (min (length mds) (length dists))
    \<and> (\<forall>i < length (search_similar_content query_backend query n).
          similarity_score (search_similar_content query_backend query n ! i) = 1 - dists ! i
        \<and> hit_rank (search_similar_content query_backend query n ! i) = i + 1
        \<and> (0 \<le> similarity_score (search_similar_content query_backend query n ! i)
            \<and> similarity_score (search_similar_content query_backend query n ! i) \<le> 1
           \<longleftrightarrow> 0 \<le> dists ! i \<and> dists ! i \<le> 1))
    \<and> (sorted (take (length (search_similar_content query_backend query n)) dists) \<longrightarrow>
          sorted (rev (map similarity_score (search_similar_content query_backend query n))))"
proof -
  let ?hits = "search_similar_content query_backend query n"
  let ?m = "min (length docs) (min (length mds) (length dists))"
  have eq: "?hits = map (\<lambda>(i, doc, md, distance).
                 \<lparr>hit_content = doc, hit_metadata = md,
                  similarity_score = 1 - distance, hit_rank = i + 1\<rparr>)
              (enumerate 0 (zip docs (zip mds dists)))"
    using assms by (rule search_hits_eq)
  have len: "length ?hits = ?m"
    by (simp add: eq)
  have nth: "similarity_score (?hits ! i) = 1 - dists ! i \<and> hit_rank (?hits ! i) = i + 1"
    if "i < ?m" for i
    using that by (simp add: eq nth_enumerate_eq)
  have scores: "map similarity_score ?hits = map (\<lambda>d. 1 - d) (take ?m dists)"
    by (rule nth_equalityI) (use len nth in auto)
  have "sorted (rev (map (\<lambda>d. 1 - d) ds))" if "sorted ds" for ds :: "real list"
    using that by (induction ds) (auto simp: sorted_append)
  then have "sorted (take ?m dists) \<longrightarrow> sorted (rev (map similarity_score ?hits))"
    unfolding scores by blast
  then show ?thesis using len nth by auto
qed

section \<open>Feedback for a completed request\<close>

lemma complete_first_already:
  "find (\<lambda>request. request_id request = rid) rs = Some r \<Longrightarrow> status r = ''completed'' \<Longrightarrow>
   complete_first rid rs = rs"
  by (induction rs) (auto split: if_splits)

lemma find_append_Some:
  "find P xs = Some x \<Longrightarrow> find P (xs @ ys) = Some x"
  by (induction xs) (auto split: if_splits)

text \<open>
  C6, as the program has it. For a request that is found and already \<open>completed\<close>, with
  feedback on record, and a console that supplies an action, two lines and a rating,
  \<open>collect_human_feedback\<close> does not fail: it returns a new feedback and appends it to the
  completed reviews. The requests are unchanged, the feedback recorded before is unchanged,
  and \<open>get_review_summary\<close> still reports the original one.
\<close>

theorem resubmitted_feedback_is_appended:
  assumes "find_request_by_id s rid = Some r" and "status r = ''completed''"
    and "get_review_summary s rid = Some original"
    and "read_action console = Inr (act, c1)" and "read_line c1 = Inr (fb, c2)"
    and "read_line c2 = Inr (sc, c3)" and "read_rating c3 = Inr (rt, c4)"
  shows "\<exists>hf s'. collect_human_feedback now console s rid reviewer = Inr (Some hf, s', c4)
           \<and> completed_reviews s' = completed_reviews s @ [hf]
           \<and> pending_reviews s' = pending_reviews s
           \<and> get_review_summary s' rid = Some original"
  using assms
  by (simp add: collect_human_feedback_def display_review_interface_def Let_def
      get_review_summary_def find_append_Some complete_first_already find_request_by_id_def)

section \<open>The order of pending reviews\<close>







section \<open>Waiting for feedback\<close>

lemma quiet_Nil: "quiet rid timeout []"
  by (simp add: quiet_def)

lemma quiet_Cons:
  "quiet rid timeout ((c, e) # pre) \<longleftrightarrow>
     find (\<lambda>fb. fb_request_id fb = rid) c = None \<and> \<not> td_seconds e > timeout
     \<and> quiet rid timeout pre"
  by (simp add: quiet_def)

lemma wait_skip_quiet:
  "quiet rid timeout pre \<Longrightarrow>
   wait_for_feedback rid timeout (pre @ rest) = wait_for_feedback rid timeout rest"
proof (induction pre)
  case Nil
  then show ?case by simp
next
  case (Cons ob pre)
  obtain c e where ob: "ob = (c, e)" by (cases ob)
  from Cons.prems have "find (\<lambda>fb. fb_request_id fb = rid) c = None"
    "\<not> td_seconds e > timeout" "quiet rid timeout pre"
    unfolding ob by (simp_all add: quiet_Cons)
  then show ?case using Cons.IH unfolding ob by simp
qed

lemma wait_returns_decompose:
  "wait_for_feedback rid timeout obs = Some r \<Longrightarrow>
   \<exists>pre completed elapsed post.
     obs = pre @ (completed, elapsed) # post \<and> quiet rid timeout pre \<and>
     (case r of
        None \<Rightarrow> find (\<lambda>fb. fb_request_id fb = rid) completed = None
                 \<and> td_seconds elapsed > timeout
      | Some fb \<Rightarrow> find (\<lambda>fb. fb_request_id fb = rid) completed = Some fb)"
proof (induction obs)
  case Nil
  then show ?case by simp
next
  case (Cons ob obs)
  obtain c e where ob: "ob = (c, e)" by (cases ob)
  show ?case
  proof (cases "find (\<lambda>fb. fb_request_id fb = rid) c = None \<and> \<not> td_seconds e > timeout")
    case True
    then have "wait_for_feedback rid timeout obs = Some r"
      using Cons.prems unfolding ob by simp
    from Cons.IH[OF this] obtain pre c' e' post where
      d: "obs = pre @ (c', e') # post" "quiet rid timeout pre"
         "(case r of
             None \<Rightarrow> find (\<lambda>fb. fb_request_id fb = rid) c' = None \<and> td_seconds e' > timeout
           | Some fb \<Rightarrow> find (\<lambda>fb. fb_request_id fb = rid) c' = Some fb)"
      by blast
    have "ob # obs = ((c, e) # pre) @ (c', e') # post"
      using d(1) ob by simp
    moreover have "quiet rid timeout ((c, e) # pre)"
      using True d(2) by (simp add: quiet_Cons)
    ultimately show ?thesis using d(3) by blast
  next
    case False
    have "(case r of
             None \<Rightarrow> find (\<lambda>fb. fb_request_id fb = rid) c = None \<and> td_seconds e > timeout
           | Some fb \<Rightarrow> find (\<lambda>fb. fb_request_id fb = rid) c = Some fb)"
      using False Cons.prems unfolding ob by (auto split: option.splits if_splits)
    moreover have "ob # obs = [] @ (c, e) # obs"
      using ob by simp
    ultimately show ?thesis using quiet_Nil by blast
  qed
qed

text \<open>
  C9, as the program has it. Each turn looks for feedback first and then compares the
  seconds elapsed with the timeout by \<open>>\<close>. The timeout signal is the result exactly when
  some turn finds no feedback and reads more seconds than the timeout, after turns that
  found no feedback and read no more than the timeout. Feedback is the result exactly when
  some turn finds it after such turns, whatever the clock reads at that turn. So with timeout
  0 a first turn that reads 0 seconds does not end the wait, and feedback that arrives
  before the next turn is returned.
\<close>

theorem wait_for_feedback_result:
  "(wait_for_feedback rid timeout obs = Some None \<longleftrightarrow>
      (\<exists>pre completed elapsed post.
         obs = pre @ (completed, elapsed) # post \<and> quiet rid timeout pre \<and>
         find (\<lambda>fb. fb_request_id fb = rid) completed = None \<and> td_seconds elapsed > timeout))
   \<and> (wait_for_feedback rid timeout obs = Some (Some fb) \<longleftrightarrow>
      (\<exists>pre completed elapsed post.
         obs = pre @ (completed, elapsed) # post \<and> quiet rid timeout pre \<and>
         find (\<lambda>fb. fb_request_id fb = rid) completed = Some fb))"
proof (intro conjI iffI)
  assume "wait_for_feedback rid timeout obs = Some None"
  from wait_returns_decompose[OF this]
  show "\<exists>pre completed elapsed post.
         obs = pre @ (completed, elapsed) # post \<and> quiet rid timeout pre \<and>
         find (\<lambda>fb. fb_request_id fb = rid) completed = None \<and> td_seconds elapsed > timeout"
    by simp
next
  assume "\<exists>pre completed elapsed post.
         obs = pre @ (completed, elapsed) # post \<and> quiet rid timeout pre \<and>
         find (\<lambda>fb. fb_request_id fb = rid) completed = None \<and> td_seconds elapsed > timeout"
  then obtain pre c e post where "obs = pre @ (c, e) # post" "quiet rid timeout pre"
    "find (\<lambda>fb. fb_request_id fb = rid) c = None" "td_seconds e > timeout"
    by blast
  then show "wait_for_feedback rid timeout obs = Some None"
    by (simp add: wait_skip_quiet)
next
  assume "wait_for_feedback rid timeout obs = Some (Some fb)"
  from wait_returns_decompose[OF this]
  show "\<exists>pre completed elapsed post.
         obs = pre @ (completed, elapsed) # post \<and> quiet rid timeout pre \<and>
         find (\<lambda>fb. fb_request_id fb = rid) completed = Some fb"
    by simp
next
  assume "\<exists>pre completed elapsed post.
         obs = pre @ (completed, elapsed) # post \<and> quiet rid timeout pre \<and>
         find (\<lambda>fb. fb_request_id fb = rid) completed = Some fb"
  then obtain pre c e post where "obs = pre @ (c, e) # post" "quiet rid timeout pre"
    "find (\<lambda>fb. fb_request_id fb = rid) c = Some fb"
    by blast
  then show "wait_for_feedback rid timeout obs = Some (Some fb)"
    by (simp add: wait_skip_quiet)
qed

section \<open>The store on concrete runs\<close>

lemma stored_versions_all_int:
  assumes "stored_versions s ch = vs" and "list_all (\<lambda>v. \<exists>n. v = Some (MInt n)) vs"
  shows "\<forall>e \<in> set (chapter_snapshots s ch). \<exists>n. map_of (metadata e) ''version'' = Some (MInt n)"
proof
  fix e assume "e \<in> set (chapter_snapshots s ch)"
  then have "map_of (metadata e) ''version'' \<in> set (stored_versions s ch)"
    by (simp add: stored_versions_def)
  then show "\<exists>n. map_of (metadata e) ''version'' = Some (MInt n)"
    using assms by (simp add: list_all_iff)
qed

text \<open>C1, as stated, fails: two calls that leave the version argument at its default store two
  snapshots with version 1, where the second would have to be 2.\<close>

theorem store_content_version_not_derived:
  "stored_versions
     (run_stores [draft_call ''0a1b2c3d'' ''Elena stepped through the ancient gates.'' 1,
                  draft_call ''4e5f6a7b'' ''Elena walked through the gates.'' 1])
     ''chapter_1'' = [Some (MInt 1), Some (MInt 1)]"
  by code_simp

theorem store_content_keeps_caller_version_witness:
  "make_doc_id ''chapter_1'' 3 ''4e5f6a7b''
     \<notin> set (map entry_id (content_collection
           (run_stores [draft_call ''0a1b2c3d'' ''Elena stepped through the ancient gates.'' 1])))
   \<and> \<not> caller_sets None ''version'' \<and> \<not> caller_sets None ''chapter_id''
   \<and> (\<exists>s'. store_content example_digest ''4e5f6a7b'' ''2024-05-02T09:00:00'' ''2024-05-02T09:00:00''
              (run_stores [draft_call ''0a1b2c3d'' ''Elena stepped through the ancient gates.'' 1])
              ''Elena walked through the gates.'' ''chapter_1'' 3 None
            = (make_doc_id ''chapter_1'' 3 ''4e5f6a7b'', s')
          \<and> stored_versions s' ''chapter_1''
            = stored_versions
                (run_stores [draft_call ''0a1b2c3d'' ''Elena stepped through the ancient gates.'' 1])
                ''chapter_1'' @ [Some (MInt 3)])"
proof -
  have h1: "make_doc_id ''chapter_1'' 3 ''4e5f6a7b''
     \<notin> set (map entry_id (content_collection
           (run_stores [draft_call ''0a1b2c3d'' ''Elena stepped through the ancient gates.'' 1])))"
    by code_simp
  have h2: "\<not> caller_sets None ''version''" and h3: "\<not> caller_sets None ''chapter_id''"
    by (simp_all add: caller_sets_def)
  show ?thesis
    by (intro conjI h1 h2 h3 store_content_keeps_caller_version[OF h1 h2 h3])
qed

text \<open>C2, as stated, fails: after the same two calls the store holds two snapshots of chapter
  and version (chapter_1, 1).\<close>

theorem repeated_store_breaks_uniqueness:
  "\<not> unique_versions
       (run_stores [draft_call ''0a1b2c3d'' ''Elena stepped through the ancient gates.'' 1,
                    draft_call ''4e5f6a7b'' ''Elena walked through the gates.'' 1])"
  by code_simp

theorem store_content_uniqueness_witness:
  "store_content example_digest ''4e5f6a7b'' ''2024-05-01T10:00:00.000100''
       ''2024-05-01T10:00:00.000200''
       (run_stores [draft_call ''0a1b2c3d'' ''Elena stepped through the ancient gates.'' 1])
       ''Elena walked through the gates.'' ''chapter_1'' 2 None
     = (''chapter_1_v2_4e5f6a7b'',
        run_stores [draft_call ''0a1b2c3d'' ''Elena stepped through the ancient gates.'' 1,
                    draft_call ''4e5f6a7b'' ''Elena walked through the gates.'' 2])
   \<and> distinct (map entry_id (content_collection
        (run_stores [draft_call ''0a1b2c3d'' ''Elena stepped through the ancient gates.'' 1])))
   \<and> unique_versions
        (run_stores [draft_call ''0a1b2c3d'' ''Elena stepped through the ancient gates.'' 1])
   \<and> snapshot_key (store_metadata example_digest ''2024-05-01T10:00:00.000100''
             ''Elena walked through the gates.'' ''chapter_1'' 2 None)
        \<notin> set (map (\<lambda>e. snapshot_key (metadata e)) (content_collection
             (run_stores [draft_call ''0a1b2c3d'' ''Elena stepped through the ancient gates.'' 1])))
   \<and> distinct (map entry_id (content_collection
        (run_stores [draft_call ''0a1b2c3d'' ''Elena stepped through the ancient gates.'' 1,
                     draft_call ''4e5f6a7b'' ''Elena walked through the gates.'' 2])))
   \<and> unique_versions
        (run_stores [draft_call ''0a1b2c3d'' ''Elena stepped through the ancient gates.'' 1,
                     draft_call ''4e5f6a7b'' ''Elena walked through the gates.'' 2])"
proof -
  let ?s = "run_stores [draft_call ''0a1b2c3d'' ''Elena stepped through the ancient gates.'' 1]"
  let ?s' = "run_stores [draft_call ''0a1b2c3d'' ''Elena stepped through the ancient gates.'' 1,
                         draft_call ''4e5f6a7b'' ''Elena walked through the gates.'' 2]"
  have st: "store_content example_digest ''4e5f6a7b'' ''2024-05-01T10:00:00.000100''
       ''2024-05-01T10:00:00.000200'' ?s
       ''Elena walked through the gates.'' ''chapter_1'' 2 None
     = (''chapter_1_v2_4e5f6a7b'', ?s')"
    by code_simp
  have d: "distinct (map entry_id (content_collection ?s))"
    by code_simp
  have u: "unique_versions ?s"
    by code_simp
  have k: "snapshot_key (store_metadata example_digest ''2024-05-01T10:00:00.000100''
             ''Elena walked through the gates.'' ''chapter_1'' 2 None)
           \<notin> set (map (\<lambda>e. snapshot_key (metadata e)) (content_collection ?s))"
    by code_simp
  from store_content_uniqueness[OF st] d u k
  have d': "distinct (map entry_id (content_collection ?s'))" and u': "unique_versions ?s'"
    by blast+
  show ?thesis
    by (intro conjI st d u k d' u')
qed

text \<open>The same call made twice with the same document id: the second returns the id and the
  snapshots stay as they were.\<close>

lemma store_content_same_id_example:
  "store_all example_digest empty_chroma
     [draft_call ''0a1b2c3d'' ''first draft'' 1, draft_call ''0a1b2c3d'' ''first draft'' 1]
   = store_all example_digest empty_chroma [draft_call ''0a1b2c3d'' ''first draft'' 1]"
  by code_simp

text \<open>C3, as stated, fails: the chapter has two snapshots, the second stored with caller
  metadata that sets \<open>version\<close> to a text; the sort compares 1 with the text and the answer has
  \<open>found\<close> false.\<close>

theorem retrieve_latest_mixed_versions:
  "stored_versions
     (run_stores [draft_call ''0a1b2c3d'' ''first draft'' 1,
                  (draft_call ''4e5f6a7b'' ''second draft'' 2)
                    \<lparr>sc_metadata := Some [(''version'', MStr ''draft'')]\<rparr>])
     ''chapter_1'' = [Some (MInt 1), Some (MStr ''draft'')]
   \<and> retrieve_content
       (run_stores [draft_call ''0a1b2c3d'' ''first draft'' 1,
                    (draft_call ''4e5f6a7b'' ''second draft'' 2)
                      \<lparr>sc_metadata := Some [(''version'', MStr ''draft'')]\<rparr>])
       ''chapter_1'' None
     = NotFound (Raised TypeError)"
  by code_simp

theorem retrieve_latest_is_max_witness:
  "chapter_snapshots
       (run_stores [draft_call ''0a1b2c3d'' ''first draft'' 1,
                    draft_call ''4e5f6a7b'' ''third draft'' 3,
                    draft_call ''8c9d0e1f'' ''second draft'' 2])
       ''chapter_1'' \<noteq> []
   \<and> stored_versions
       (run_stores [draft_call ''0a1b2c3d'' ''first draft'' 1,
                    draft_call ''4e5f6a7b'' ''third draft'' 3,
                    draft_call ''8c9d0e1f'' ''second draft'' 2])
       ''chapter_1'' = [Some (MInt 1), Some (MInt 3), Some (MInt 2)]
   \<and> (\<exists>e \<in> set (chapter_snapshots
          (run_stores [draft_call ''0a1b2c3d'' ''first draft'' 1,
                       draft_call ''4e5f6a7b'' ''third draft'' 3,
                       draft_call ''8c9d0e1f'' ''second draft'' 2])
          ''chapter_1''). \<exists>n.
         map_of (metadata e) ''version'' = Some (MInt n) \<and>
         retrieve_content
           (run_stores [draft_call ''0a1b2c3d'' ''first draft'' 1,
                        draft_call ''4e5f6a7b'' ''third draft'' 3,
                        draft_call ''8c9d0e1f'' ''second draft'' 2])
           ''chapter_1'' None = Found (document e) (metadata e) \<and>
         (\<forall>e' \<in> set (chapter_snapshots
              (run_stores [draft_call ''0a1b2c3d'' ''first draft'' 1,
                           draft_call ''4e5f6a7b'' ''third draft'' 3,
                           draft_call ''8c9d0e1f'' ''second draft'' 2])
              ''chapter_1''). \<forall>m.
            map_of (metadata e') ''version'' = Some (MInt m) \<longrightarrow> m \<le> n))"
proof -
  let ?s = "run_stores [draft_call ''0a1b2c3d'' ''first draft'' 1,
                        draft_call ''4e5f6a7b'' ''third draft'' 3,
                        draft_call ''8c9d0e1f'' ''second draft'' 2]"
  have h1: "chapter_snapshots ?s ''chapter_1'' \<noteq> []"
    by code_simp
  have vs: "stored_versions ?s ''chapter_1'' = [Some (MInt 1), Some (MInt 3), Some (MInt 2)]"
    by code_simp
  have h2: "\<forall>e \<in> set (chapter_snapshots ?s ''chapter_1'').
              \<exists>n. map_of (metadata e) ''version'' = Some (MInt n)"
    by (rule stored_versions_all_int[OF vs]) simp
  show ?thesis
    by (intro conjI h1 vs retrieve_latest_is_max[OF h1 h2])
qed

text \<open>The run of the witness, evaluated: the snapshot returned is the one stored with
  version 3.\<close>

lemma retrieve_latest_example:
  "retrieve_content
     (run_stores [draft_call ''0a1b2c3d'' ''first draft'' 1,
                  draft_call ''4e5f6a7b'' ''third draft'' 3,
                  draft_call ''8c9d0e1f'' ''second draft'' 2])
     ''chapter_1'' None
   = Found ''third draft''
       [(''chapter_id'', MStr ''chapter_1''), (''version'', MInt 3),
        (''content_hash'', MStr ''sha256:third draft''),
        (''timestamp'', MStr ''2024-05-01T10:00:00.000100''),
        (''word_count'', MInt 2), (''char_count'', MInt 11)]"
  by code_simp

text \<open>
  C4 at version 0. The store holds versions 1 and 2 of the chapter and no snapshot with
  version 0; \<open>retrieve_content\<close> with version 0 answers with the snapshot of version 2 where
  the not-found answer is due.
\<close>

theorem retrieve_version_zero_found:
  "stored_versions
     (run_stores [draft_call ''0a1b2c3d'' ''first draft'' 1,
                  draft_call ''4e5f6a7b'' ''second draft'' 2])
     ''chapter_1'' = [Some (MInt 1), Some (MInt 2)]
   \<and> retrieve_content
       (run_stores [draft_call ''0a1b2c3d'' ''first draft'' 1,
                    draft_call ''4e5f6a7b'' ''second draft'' 2])
       ''chapter_1'' (Some 0)
     = Found ''second draft''
         [(''chapter_id'', MStr ''chapter_1''), (''version'', MInt 2),
          (''content_hash'', MStr ''sha256:second draft''),
          (''timestamp'', MStr ''2024-05-01T10:00:00.000100''),
          (''word_count'', MInt 2), (''char_count'', MInt 12)]"
  by code_simp

text \<open>C10, as stated, fails on "rather than a not-found result": the chapter has snapshots,
  one with version 0 and one whose version is a text, and version 0 is answered with
  \<open>found\<close> false.\<close>

theorem retrieve_version_zero_mixed_versions:
  "stored_versions
     (run_stores [draft_call ''0a1b2c3d'' ''outline'' 0,
                  (draft_call ''4e5f6a7b'' ''final text'' 1)
                    \<lparr>sc_metadata := Some [(''version'', MStr ''final'')]\<rparr>])
     ''chapter_1'' = [Some (MInt 0), Some (MStr ''final'')]
   \<and> retrieve_content
       (run_stores [draft_call ''0a1b2c3d'' ''outline'' 0,
                    (draft_call ''4e5f6a7b'' ''final text'' 1)
                      \<lparr>sc_metadata := Some [(''version'', MStr ''final'')]\<rparr>])
       ''chapter_1'' (Some 0)
     = NotFound (Raised TypeError)"
  by code_simp

theorem retrieve_version_zero_is_latest_witness:
  "chapter_snapshots
       (run_stores [draft_call ''0a1b2c3d'' ''outline'' 0,
                    draft_call ''4e5f6a7b'' ''second draft'' 2])
       ''chapter_1'' \<noteq> []
   \<and> stored_versions
       (run_stores [draft_call ''0a1b2c3d'' ''outline'' 0,
                    draft_call ''4e5f6a7b'' ''second draft'' 2])
       ''chapter_1'' = [Some (MInt 0), Some (MInt 2)]
   \<and> retrieve_content
       (run_stores [draft_call ''0a1b2c3d'' ''outline'' 0,
                    draft_call ''4e5f6a7b'' ''second draft'' 2])
       ''chapter_1'' (Some 0)
     = retrieve_content
         (run_stores [draft_call ''0a1b2c3d'' ''outline'' 0,
                      draft_call ''4e5f6a7b'' ''second draft'' 2])
         ''chapter_1'' None
   \<and> (\<exists>e \<in> set (chapter_snapshots
          (run_stores [draft_call ''0a1b2c3d'' ''outline'' 0,
                       draft_call ''4e5f6a7b'' ''second draft'' 2])
          ''chapter_1''). \<exists>n.
         map_of (metadata e) ''version'' = Some (MInt n) \<and>
         retrieve_content
           (run_stores [draft_call ''0a1b2c3d'' ''outline'' 0,
                        draft_call ''4e5f6a7b'' ''second draft'' 2])
           ''chapter_1'' (Some 0) = Found (document e) (metadata e) \<and>
         (\<forall>e' \<in> set (chapter_snapshots
              (run_stores [draft_call ''0a1b2c3d'' ''outline'' 0,
                           draft_call ''4e5f6a7b'' ''second draft'' 2])
              ''chapter_1''). \<forall>m.
            map_of (metadata e') ''version'' = Some (MInt m) \<longrightarrow> m \<le> n))"
proof -
  let ?s = "run_stores [draft_call ''0a1b2c3d'' ''outline'' 0,
                        draft_call ''4e5f6a7b'' ''second draft'' 2]"
  have h1: "chapter_snapshots ?s ''chapter_1'' \<noteq> []"
    by code_simp
  have vs: "stored_versions ?s ''chapter_1'' = [Some (MInt 0), Some (MInt 2)]"
    by code_simp
  have h2: "\<forall>e \<in> set (chapter_snapshots ?s ''chapter_1'').
              \<exists>n. map_of (metadata e) ''version'' = Some (MInt n)"
    by (rule stored_versions_all_int[OF vs]) simp
  note inst = retrieve_version_zero_is_latest[of ?s "''chapter_1''"]
  from inst have eq: "retrieve_content ?s ''chapter_1'' (Some 0)
                        = retrieve_content ?s ''chapter_1'' None"
    by (rule conjunct1)
  from inst h1 h2 have ex: "\<exists>e \<in> set (chapter_snapshots ?s ''chapter_1''). \<exists>n.
         map_of (metadata e) ''version'' = Some (MInt n) \<and>
         retrieve_content ?s ''chapter_1'' (Some 0) = Found (document e) (metadata e) \<and>
         (\<forall>e' \<in> set (chapter_snapshots ?s ''chapter_1''). \<forall>m.
            map_of (metadata e') ''version'' = Some (MInt m) \<longrightarrow> m \<le> n)"
    by blast
  show ?thesis
    by (intro conjI h1 vs eq ex)
qed

text \<open>The run of the witness, evaluated: a snapshot with version 0 is stored, and version 0
  is answered with the snapshot of version 2.\<close>

lemma retrieve_version_zero_example:
  "retrieve_content
     (run_stores [draft_call ''0a1b2c3d'' ''outline'' 0,
                  draft_call ''4e5f6a7b'' ''second draft'' 2])
     ''chapter_1'' (Some 0)
   = Found ''second draft''
       [(''chapter_id'', MStr ''chapter_1''), (''version'', MInt 2),
        (''content_hash'', MStr ''sha256:second draft''),
        (''timestamp'', MStr ''2024-05-01T10:00:00.000100''),
        (''word_count'', MInt 2), (''char_count'', MInt 12)]"
  by code_simp



section \<open>The interface and the search on concrete runs\<close>

text \<open>C8, as stated, fails: for a distance of 2 the score is \<open>-1\<close>, outside \<open>[0, 1]\<close>.\<close>

theorem similarity_score_unclamped:
  "map similarity_score
     (search_similar_content
        (fixed_backend (Inr ([''the gates at dawn'', ''a ledger of accounts''], [[], []], [3 / 10, 2])))
        ''ancient gates'' 5)
   = [7 / 10, - 1]"
  by (simp add: search_similar_content_def fixed_backend_def enumerate_eq_zip)

theorem similarity_is_one_minus_distance_witness:
  "fixed_backend (Inr ([''the gates at dawn'', ''a courtyard''], [[], []], [1 / 4, 1 / 2]))
       ''ancient gates'' 5
     = Inr ([''the gates at dawn'', ''a courtyard''], [[], []], [1 / 4, 1 / 2])
   \<and> sorted (take (length (search_similar_content
         (fixed_backend (Inr ([''the gates at dawn'', ''a courtyard''], [[], []], [1 / 4, 1 / 2])))
         ''ancient gates'' 5)) [1 / 4, 1 / 2 :: real])
   \<and> length (search_similar_content
         (fixed_backend (Inr ([''the gates at dawn'', ''a courtyard''], [[], []], [1 / 4, 1 / 2])))
         ''ancient gates'' 5) = 2
   \<and> similarity_score (search_similar_content
         (fixed_backend (Inr ([''the gates at dawn'', ''a courtyard''], [[], []], [1 / 4, 1 / 2])))
         ''ancient gates'' 5 ! 1) = 1 / 2
   \<and> sorted (rev (map similarity_score (search_similar_content
         (fixed_backend (Inr ([''the gates at dawn'', ''a courtyard''], [[], []], [1 / 4, 1 / 2])))
         ''ancient gates'' 5)))"
proof -
  let ?b = "fixed_backend (Inr ([''the gates at dawn'', ''a courtyard''], [[], []], [1 / 4, 1 / 2]))"
  let ?hits = "search_similar_content ?b ''ancient gates'' 5"
  have a: "?b ''ancient gates'' 5
             = Inr ([''the gates at dawn'', ''a courtyard''], [[], []], [1 / 4, 1 / 2])"
    by (simp add: fixed_backend_def)
  note inst = similarity_is_one_minus_distance
                [of ?b "''ancient gates''" 5 "[''the gates at dawn'', ''a courtyard'']"
                    "[[], []]" "[1 / 4, 1 / 2]", OF a]
  from inst have len: "length ?hits = 2"
    by simp
  have srt: "sorted (take (length ?hits) [1 / 4, 1 / 2 :: real])"
    unfolding len by simp
  from inst len have "similarity_score (?hits ! 1) = 1 - [1 / 4, 1 / 2 :: real] ! 1"
    by simp
  then have sc: "similarity_score (?hits ! 1) = 1 / 2"
    by simp
  from inst srt have desc: "sorted (rev (map similarity_score ?hits))"
    by blast
  show ?thesis
    by (intro conjI a srt len sc desc)
qed

text \<open>C6, as stated, fails: the request is completed and carries the feedback of alice; a
  second submission for it returns a feedback with action \<open>reject\<close> where an error is due,
  and two feedbacks are then on record.\<close>

theorem resubmission_does_not_fail:
  "map status (pending_reviews reviewed_once) = [''completed'']
   \<and> map_sum id (\<lambda>(r, s', c). (map_option action r, map reviewer_id (completed_reviews s')))
       (collect_human_feedback ''2024-05-01T12:00:00''
          [''reject'', ''on second thought'', ''rewrite the opening'', ''2'']
          reviewed_once ''reviewer_20240501_100000_0'' ''bob'')
     = Inr (Some ''reject'', [''alice'', ''bob''])"
  by code_simp

theorem resubmitted_feedback_is_appended_witness:
  "find_request_by_id reviewed_once ''reviewer_20240501_100000_0''
     = Some \<lparr>request_id = ''reviewer_20240501_100000_0'', rr_content = ''draft'',
             original_content = ''source'', ai_feedback = [], review_type = ''reviewer'',
             priority = 3, created_at = ''2024-05-01T10:00:00'', status = ''completed''\<rparr>
   \<and> get_review_summary reviewed_once ''reviewer_20240501_100000_0''
     = Some \<lparr>fb_request_id = ''reviewer_20240501_100000_0'', reviewer_id = ''alice'',
             action = ''approve'', feedback = ''reads well'', suggested_changes = [],
             rating = 9, timestamp = ''2024-05-01T11:00:00''\<rparr>
   \<and> read_action [''Reject '', ''on second thought'', ''rewrite the opening'', ''ten'', ''2'']
     = Inr (''reject'', [''on second thought'', ''rewrite the opening'', ''ten'', ''2''])
   \<and> read_line [''on second thought'', ''rewrite the opening'', ''ten'', ''2'']
     = Inr (''on second thought'', [''rewrite the opening'', ''ten'', ''2''])
   \<and> read_line [''rewrite the opening'', ''ten'', ''2'']
     = Inr (''rewrite the opening'', [''ten'', ''2''])
   \<and> read_rating [''ten'', ''2''] = Inr (2, [])
   \<and> (\<exists>hf s'. collect_human_feedback ''2024-05-01T12:00:00''
                 [''Reject '', ''on second thought'', ''rewrite the opening'', ''ten'', ''2'']
                 reviewed_once ''reviewer_20240501_100000_0'' ''bob'' = Inr (Some hf, s', [])
           \<and> completed_reviews s' = completed_reviews reviewed_once @ [hf]
           \<and> pending_reviews s' = pending_reviews reviewed_once
           \<and> get_review_summary s' ''reviewer_20240501_100000_0''
             = Some \<lparr>fb_request_id = ''reviewer_20240501_100000_0'', reviewer_id = ''alice'',
                     action = ''approve'', feedback = ''reads well'', suggested_changes = [],
                     rating = 9, timestamp = ''2024-05-01T11:00:00''\<rparr>)"
proof -
  let ?r = "\<lparr>request_id = ''reviewer_20240501_100000_0'', rr_content = ''draft'',
             original_content = ''source'', ai_feedback = [], review_type = ''reviewer'',
             priority = 3, created_at = ''2024-05-01T10:00:00'', status = ''completed''\<rparr>"
  have h1: "find_request_by_id reviewed_once ''reviewer_20240501_100000_0'' = Some ?r"
    by code_simp
  have h2: "status ?r = ''completed''"
    by simp
  have h3: "get_review_summary reviewed_once ''reviewer_20240501_100000_0''
     = Some \<lparr>fb_request_id = ''reviewer_20240501_100000_0'', reviewer_id = ''alice'',
             action = ''approve'', feedback = ''reads well'', suggested_changes = [],
             rating = 9, timestamp = ''2024-05-01T11:00:00''\<rparr>"
    by code_simp
  have h4: "read_action [''Reject '', ''on second thought'', ''rewrite the opening'', ''ten'', ''2'']
     = Inr (''reject'', [''on second thought'', ''rewrite the opening'', ''ten'', ''2''])"
    by code_simp
  have h5: "read_line [''on second thought'', ''rewrite the opening'', ''ten'', ''2'']
     = Inr (''on second thought'', [''rewrite the opening'', ''ten'', ''2''])"
    by code_simp
  have h6: "read_line [''rewrite the opening'', ''ten'', ''2'']
     = Inr (''rewrite the opening'', [''ten'', ''2''])"
    by code_simp
  have h7: "read_rating [''ten'', ''2''] = Inr (2, [])"
    by code_simp
  show ?thesis
    by (intro conjI h1 h3 h4 h5 h6 h7
        resubmitted_feedback_is_appended[OF h1 h2 h3 h4 h5 h6 h7])
qed



text \<open>The run of the witness, evaluated: priorities 2, 5, 5, 1 submitted in that order, with
  a clock that moves forward.\<close>

lemma get_pending_reviews_example:
  "map (\<lambda>r. (request_id r, priority r))
     (get_pending_reviews
        (submit_all empty_interface
           [(''20240501_100000'', ''2024-05-01T10:00:00.120000'', 2),
            (''20240501_100000'', ''2024-05-01T10:00:00.450000'', 5),
            (''20240501_100001'', ''2024-05-01T10:00:01.300000'', 5),
            (''20240501_100002'', ''2024-05-01T10:00:02.500000'', 1)])
        None 1)
   = [(''reviewer_20240501_100000_1'', 5), (''reviewer_20240501_100001_2'', 5),
      (''reviewer_20240501_100000_0'', 2), (''reviewer_20240501_100002_3'', 1)]"
  by code_simp

text \<open>C9, as stated, fails: the request is pending when the wait starts with timeout 0; the
  first turn reads 0 seconds, the feedback arrives during the pause, and the second turn
  returns it.\<close>

theorem wait_zero_timeout_returns_feedback:
  "wait_for_feedback ''reviewer_20240501_100000_0'' 0
     [(completed_reviews empty_interface, 0), (completed_reviews reviewed_once, 10)]
   = Some (Some \<lparr>fb_request_id = ''reviewer_20240501_100000_0'', reviewer_id = ''alice'',
                 action = ''approve'', feedback = ''reads well'', suggested_changes = [],
                 rating = 9, timestamp = ''2024-05-01T11:00:00''\<rparr>)"
  by code_simp

theorem wait_for_feedback_result_witness:
  "wait_for_feedback ''reviewer_20240501_100000_0'' 0 [([], 0), ([], 10), ([], 20)] = Some None
   \<and> (\<exists>pre completed elapsed post.
         [([], 0), ([], 10), ([], 20)] = pre @ (completed, elapsed) # post
       \<and> quiet ''reviewer_20240501_100000_0'' 0 pre
       \<and> find (\<lambda>fb. fb_request_id fb = ''reviewer_20240501_100000_0'') completed = None
       \<and> td_seconds elapsed > 0)"
proof -
  have r: "wait_for_feedback ''reviewer_20240501_100000_0'' 0 [([], 0), ([], 10), ([], 20)]
             = Some None"
    by (simp add: td_seconds_def)
  from wait_for_feedback_result[of "''reviewer_20240501_100000_0''" 0 "[([], 0), ([], 10), ([], 20)]"] r
  have "\<exists>pre completed elapsed post.
         [([], 0), ([], 10), ([], 20)] = pre @ (completed, elapsed) # post
       \<and> quiet ''reviewer_20240501_100000_0'' 0 pre
       \<and> find (\<lambda>fb. fb_request_id fb = ''reviewer_20240501_100000_0'') completed = None
       \<and> td_seconds elapsed > 0"
    by blast
  with r show ?thesis by blast
qed

end
